theory Spec2Isabelle
  imports Main
begin

section \<open>JavaScript values, as far as the filter utilities see them\<close>

text \<open>
  The filter utilities of \<^verbatim>\<open>src/utils/filterValidation.js\<close> are documented to take
  strings and a boolean flag, each of which a caller may leave out. A value is therefore a
  string, a boolean, \<^verbatim>\<open>undefined\<close> or \<^verbatim>\<open>null\<close>. Strings are lists of
  8-bit characters. The only exception the utilities can raise on such values is the
  \<^verbatim>\<open>TypeError\<close> of calling \<^verbatim>\<open>.trim()\<close> on a value that is not a string.
\<close>

datatype jsval = JUndefined | JNull | JBool bool | JStr string

datatype error = TypeError

text \<open>\<^verbatim>\<open>ToBoolean\<close>: what \<^verbatim>\<open>!x\<close>, \<^verbatim>\<open>x && y\<close> and \<^verbatim>\<open>if (x)\<close> test.\<close>

fun truthy :: "jsval \<Rightarrow> bool" where
  "truthy JUndefined = False"
| "truthy JNull = False"
| "truthy (JBool b) = b"
| "truthy (JStr s) = (s \<noteq> [])"

text \<open>
  White space and line terminators of ECMAScript among the 8-bit characters: TAB, LF, VT,
  FF, CR, SP and NBSP. \<^verbatim>\<open>String.prototype.trim\<close> strips them from both ends.
\<close>

definition isWhiteSpace :: "char \<Rightarrow> bool" where
  "isWhiteSpace c =
     (c = CHR 0x09 \<or> c = CHR 0x0A \<or> c = CHR 0x0B \<or> c = CHR 0x0C \<or> c = CHR 0x0D
      \<or> c = CHR 0x20 \<or> c = CHR 0xA0)"

definition trim :: "string \<Rightarrow> string" where
  "trim s = rev (dropWhile isWhiteSpace (rev (dropWhile isWhiteSpace s)))"

text \<open>The method call \<^verbatim>\<open>x.trim()\<close>: a \<^verbatim>\<open>TypeError\<close> unless \<open>x\<close> is a string.\<close>

fun js_trim :: "jsval \<Rightarrow> error + string" where
  "js_trim (JStr s) = Inr (trim s)"
| "js_trim v = Inl TypeError"

text \<open>Sequencing of computations that may throw: the first exception wins.\<close>

definition andThen :: "error + 'a \<Rightarrow> ('a \<Rightarrow> error + 'b) \<Rightarrow> error + 'b" where
  "andThen r k = (case r of Inl e \<Rightarrow> Inl e | Inr v \<Rightarrow> k v)"

text \<open>
  The expression \<^verbatim>\<open>x && x.trim() !== ''\<close>, which the utilities repeat for each text
  field. \<^verbatim>\<open>&&\<close> yields its left operand when that is falsy, and its right operand
  otherwise; the right operand is evaluated only in the second case.
\<close>

definition nonBlank :: "jsval \<Rightarrow> error + jsval" where
  "nonBlank x =
     (if truthy x then andThen (js_trim x) (\<lambda>t. Inr (JBool (t \<noteq> []))) else Inr x)"

text \<open>
  The expression \<^verbatim>\<open>(a && a.trim() !== '') || (b && b.trim() !== '')\<close>:
  \<^verbatim>\<open>||\<close> yields its left operand when that is truthy, and its right operand otherwise.
\<close>

definition nonBlankEither :: "jsval \<Rightarrow> jsval \<Rightarrow> error + jsval" where
  "nonBlankEither a b =
     andThen (nonBlank a) (\<lambda>l. if truthy l then Inr l else nonBlank b)"


section \<open>Dates\<close>

text \<open>
  \<^verbatim>\<open>new Date(string)\<close> parses with \<^verbatim>\<open>Date.parse\<close>, whose result outside the ISO
  format is left to the JavaScript engine. The parser is therefore a parameter of every
  function that builds a date: it maps a string to its time value in milliseconds since
  the epoch, or to \<open>None\<close> for the invalid date, whose \<^verbatim>\<open>getTime()\<close> is
  \<^verbatim>\<open>NaN\<close>. The theorems hold for every parser.
\<close>

type_synonym dateParser = "string \<Rightarrow> int option"

text \<open>
  \<^verbatim>\<open>new Date(v).getTime()\<close>. A value that is not a string is converted to a number:
  \<^verbatim>\<open>true\<close> is 1, \<^verbatim>\<open>false\<close> and \<^verbatim>\<open>null\<close> are 0, \<^verbatim>\<open>undefined\<close> is
  \<^verbatim>\<open>NaN\<close>. The constructor throws on none of these values.
\<close>

fun newDate :: "dateParser \<Rightarrow> jsval \<Rightarrow> int option" where
  "newDate parse (JStr s) = parse s"
| "newDate parse (JBool b) = Some (if b then 1 else 0)"
| "newDate parse JNull = Some 0"
| "newDate parse JUndefined = None"


section \<open>The validation utilities (\<^verbatim>\<open>src/utils/filterValidation.js\<close>)\<close>

text \<open>
  \<^verbatim>\<open>validateDateRange\<close>, lines 13-34. Neither the tests \<^verbatim>\<open>!startDate\<close>,
  \<^verbatim>\<open>!endDate\<close> nor the body of the \<^verbatim>\<open>try\<close> can throw, so the \<^verbatim>\<open>catch\<close>
  branch is never taken and the result is a boolean. Two dates are compared with
  \<^verbatim>\<open><=\<close> by their time values.
\<close>

definition validateDateRange :: "dateParser \<Rightarrow> jsval \<Rightarrow> jsval \<Rightarrow> bool" where
  "validateDateRange parse startD endD =
     (if \<not> truthy startD \<or> \<not> truthy endD then True
      else (case newDate parse startD of
              None \<Rightarrow> False
            | Some s \<Rightarrow> (case newDate parse endD of
                          None \<Rightarrow> False
                        | Some e \<Rightarrow> s \<le> e)))"

text \<open>The object that \<^verbatim>\<open>hasAnyActiveFilters\<close> destructures.\<close>

record filterValues =
  selectedDate :: jsval
  startDate :: jsval
  endDate :: jsval
  selectedZone :: jsval
  tripCountFilter :: jsval
  showTripCountFilter :: jsval

text \<open>
  \<^verbatim>\<open>hasAnyActiveFilters\<close>, lines 47-76. The parameter default
  \<^verbatim>\<open>showTripCountFilter = false\<close> applies when the property is \<^verbatim>\<open>undefined\<close>.
  Every \<^verbatim>\<open>return\<close> yields a boolean literal.
\<close>

definition hasAnyActiveFilters :: "filterValues \<Rightarrow> error + bool" where
  "hasAnyActiveFilters fv =
     (let showTrip = (if showTripCountFilter fv = JUndefined then JBool False
                      else showTripCountFilter fv)
      in andThen (nonBlank (selectedDate fv)) (\<lambda>d.
           if truthy d then Inr True
           else andThen (nonBlankEither (startDate fv) (endDate fv)) (\<lambda>r.
             if truthy r then Inr True
             else andThen (nonBlank (selectedZone fv)) (\<lambda>z.
               if truthy z then Inr True
               else if truthy showTrip \<and> truthy (tripCountFilter fv)
                       \<and> tripCountFilter fv \<noteq> JStr ''all'' then Inr True
               else Inr False))))"

text \<open>\<^verbatim>\<open>hasDateRangeFilter\<close>, lines 84-86: the value of the \<^verbatim>\<open>||\<close> expression.\<close>

definition hasDateRangeFilter :: "jsval \<Rightarrow> jsval \<Rightarrow> error + jsval" where
  "hasDateRangeFilter startD endD = nonBlankEither startD endD"

text \<open>\<^verbatim>\<open>hasSpecificDateFilter\<close>, lines 93-95: the value of the \<^verbatim>\<open>&&\<close> expression.\<close>

definition hasSpecificDateFilter :: "jsval \<Rightarrow> error + jsval" where
  "hasSpecificDateFilter selDate = nonBlank selDate"

text \<open>\<^verbatim>\<open>hasBothDateFilters\<close>, lines 104-106.\<close>

definition hasBothDateFilters :: "jsval \<Rightarrow> jsval \<Rightarrow> jsval \<Rightarrow> error + jsval" where
  "hasBothDateFilters selDate startD endD =
     andThen (hasSpecificDateFilter selDate) (\<lambda>l.
       if truthy l then hasDateRangeFilter startD endD else Inr l)"

text \<open>
  \<^verbatim>\<open>isValidDate\<close>, lines 113-124. The test of the \<^verbatim>\<open>if\<close> stands before the
  \<^verbatim>\<open>try\<close>, so a \<^verbatim>\<open>TypeError\<close> of \<^verbatim>\<open>.trim()\<close> escapes; the body of the
  \<^verbatim>\<open>try\<close> cannot throw.
\<close>

definition isValidDate :: "dateParser \<Rightarrow> jsval \<Rightarrow> error + bool" where
  "isValidDate parse dateString =
     (if \<not> truthy dateString then Inr True
      else andThen (js_trim dateString) (\<lambda>t.
        if t = [] then Inr True
        else Inr (newDate parse dateString \<noteq> None)))"

text \<open>
  \<^verbatim>\<open>getDateRangeErrorMessage\<close>, lines 132-150: \<open>None\<close> is \<^verbatim>\<open>null\<close>.
\<close>

definition getDateRangeErrorMessage ::
  "dateParser \<Rightarrow> jsval \<Rightarrow> jsval \<Rightarrow> error + string option" where
  "getDateRangeErrorMessage parse startD endD =
     (if \<not> truthy startD \<or> \<not> truthy endD then Inr None
      else andThen (isValidDate parse startD) (\<lambda>okStart.
        if \<not> okStart then Inr (Some ''Start date is invalid'')
        else andThen (isValidDate parse endD) (\<lambda>okEnd.
          if \<not> okEnd then Inr (Some ''End date is invalid'')
          else if \<not> validateDateRange parse startD endD
               then Inr (Some ''Start date must be before or equal to end date'')
          else Inr None)))"

text \<open>
  \<^verbatim>\<open>getClearedFilterValues\<close>, lines 156-162. The object has no property
  \<^verbatim>\<open>showTripCountFilter\<close>: reading it gives \<^verbatim>\<open>undefined\<close>.
\<close>

definition getClearedFilterValues :: filterValues where
  "getClearedFilterValues =
     \<lparr> selectedDate = JStr '''', startDate = JStr '''', endDate = JStr '''',
       selectedZone = JStr '''', tripCountFilter = JStr ''all'',
       showTripCountFilter = JUndefined \<rparr>"


section \<open>A parser for concrete dates\<close>

text \<open>
  The date inputs of the user interface produce the date-only form \<^verbatim>\<open>YYYY-MM-DD\<close> of
  the ECMAScript date-time string format, which \<^verbatim>\<open>Date.parse\<close> reads as midnight UTC
  of that day in every engine. \<open>isoDateParse\<close> reads this form and rejects every other
  string; it is the parser at which the functions are evaluated on concrete inputs.
\<close>

definition msPerDay :: int where
  "msPerDay = 86400000"

definition digitOf :: "char \<Rightarrow> nat option" where
  "digitOf c =
     (let n = (of_char c :: nat) in if 48 \<le> n \<and> n \<le> 57 then Some (n - 48) else None)"

fun digitsOf :: "nat \<Rightarrow> string \<Rightarrow> nat option" where
  "digitsOf acc [] = Some acc"
| "digitsOf acc (c # cs) =
     (case digitOf c of None \<Rightarrow> None | Some d \<Rightarrow> digitsOf (10 * acc + d) cs)"

definition isLeapYear :: "nat \<Rightarrow> bool" where
  "isLeapYear y = (y mod 4 = 0 \<and> (y mod 100 \<noteq> 0 \<or> y mod 400 = 0))"

definition daysInMonth :: "nat \<Rightarrow> nat \<Rightarrow> nat" where
  "daysInMonth y m =
     (if m = 2 then (if isLeapYear y then 29 else 28)
      else if m = 4 \<or> m = 6 \<or> m = 9 \<or> m = 11 then 30 else 31)"

text \<open>Days from 1970-01-01 to the given day of the proleptic Gregorian calendar.\<close>

definition daysFromCivil :: "int \<Rightarrow> int \<Rightarrow> int \<Rightarrow> int" where
  "daysFromCivil y m d =
     (let y' = (if m \<le> 2 then y - 1 else y);
          era = y' div 400;
          yoe = y' - era * 400;
          doy = (153 * (if m > 2 then m - 3 else m + 9) + 2) div 5 + d - 1;
          doe = yoe * 365 + yoe div 4 - yoe div 100 + doy
      in era * 146097 + doe - 719468)"

definition isoDateParse :: dateParser where
  "isoDateParse s =
     (if length s = 10 \<and> s ! 4 = CHR ''-'' \<and> s ! 7 = CHR ''-'' then
        (case digitsOf 0 (take 4 s) of
           None \<Rightarrow> None
         | Some y \<Rightarrow>
            (case digitsOf 0 (take 2 (drop 5 s)) of
               None \<Rightarrow> None
             | Some m \<Rightarrow>
                (case digitsOf 0 (drop 8 s) of
                   None \<Rightarrow> None
                 | Some d \<Rightarrow>
                    if 1 \<le> m \<and> m \<le> 12 \<and> 1 \<le> d \<and> d \<le> daysInMonth y m
                    then Some (msPerDay * daysFromCivil (int y) (int m) (int d))
                    else None)))
      else None)"


section \<open>The filter evaluation unit\<close>

text \<open>
  \<^verbatim>\<open>shouldIncludeRow\<close> reads \<^verbatim>\<open>row.Date\<close> and \<^verbatim>\<open>row.Zone\<close> and hands
  the whole row to the trip-count filter. What that filter reads of the row is in the
  missing \<^verbatim>\<open>dateFilterLogic.js\<close>; the spec gives it as the row's trip bucket, one
  of 0, 1, 2 and "3 and more".
\<close>

datatype bucket = Trips0 | Trips1 | Trips2 | Trips3Plus

record row =
  Date :: string
  Zone :: string
  tripsBucket :: bucket

text \<open>
  \<^verbatim>\<open>TRIP_COUNT_OPTIONS\<close> of \<^verbatim>\<open>src/constants/filterConstants.js\<close>, lines 137-142:
  the values the trip-count selector can take, each with its label.
\<close>

definition TRIP_COUNT_OPTIONS :: "(string \<times> string) list" where
  "TRIP_COUNT_OPTIONS =
     [(''all'', ''All (<3 trips)''), (''0'', ''0 Trips Only''),
      (''1'', ''1 Trip Only''), (''2'', ''2 Trips Only'')]"

text \<open>
  Modelled from the spec: \<^verbatim>\<open>src/utils/dateFilterLogic.js\<close>, which holds the three
  filters and their helpers, is not among the sources. A field of the filter state is set
  when it holds a non-blank string; an absent or blank field is unset and constrains nothing.
\<close>

definition isSet :: "jsval \<Rightarrow> bool" where
  "isSet v = (case v of JStr s \<Rightarrow> trim s \<noteq> [] | _ \<Rightarrow> False)"

text \<open>
  Modelled from the spec: \<^verbatim>\<open>normalizeDate\<close> of the missing
  \<^verbatim>\<open>dateFilterLogic.js\<close>. Dates are compared as calendar dates without a time
  component, never as strings: the day number of the parsed date, and \<open>None\<close> for a
  string that does not parse.
\<close>

definition normalizeDate :: "dateParser \<Rightarrow> string \<Rightarrow> int option" where
  "normalizeDate parse s = map_option (\<lambda>t. t div msPerDay) (parse s)"

text \<open>
  Modelled from the spec: the calendar date of a field of the filter state (the missing
  \<^verbatim>\<open>dateFilterLogic.js\<close> normalises the filter's dates like the row's).
\<close>

definition dateOfField :: "dateParser \<Rightarrow> jsval \<Rightarrow> int option" where
  "dateOfField parse v = (case v of JStr s \<Rightarrow> normalizeDate parse s | _ \<Rightarrow> None)"

text \<open>
  Modelled from the spec: \<^verbatim>\<open>matchesSpecificDate\<close> of the missing
  \<^verbatim>\<open>dateFilterLogic.js\<close>. The row's date equals the specific date when that is set,
  and false otherwise; a date that does not parse cannot match.
\<close>

definition matchesSpecificDate :: "dateParser \<Rightarrow> string \<Rightarrow> jsval \<Rightarrow> bool" where
  "matchesSpecificDate parse rowDate selDate =
     (isSet selDate \<and>
      (case normalizeDate parse rowDate of
         None \<Rightarrow> False
       | Some d \<Rightarrow> dateOfField parse selDate = Some d))"

text \<open>
  Modelled from the spec: \<^verbatim>\<open>matchesDateRange\<close> of the missing
  \<^verbatim>\<open>dateFilterLogic.js\<close>. With both bounds set the row's date lies between them,
  both ends included; a lone bound is not a half-open range and matches nothing.
\<close>

definition matchesDateRange :: "dateParser \<Rightarrow> string \<Rightarrow> jsval \<Rightarrow> jsval \<Rightarrow> bool" where
  "matchesDateRange parse rowDate startD endD =
     (isSet startD \<and> isSet endD \<and>
      (case normalizeDate parse rowDate of
         None \<Rightarrow> False
       | Some d \<Rightarrow>
          (case dateOfField parse startD of
             None \<Rightarrow> False
           | Some lo \<Rightarrow>
              (case dateOfField parse endD of
                 None \<Rightarrow> False
               | Some hi \<Rightarrow> lo \<le> d \<and> d \<le> hi))))"

text \<open>
  Modelled from the spec: \<^verbatim>\<open>applyDateFiltering\<close> of the missing
  \<^verbatim>\<open>dateFilterLogic.js\<close>. Without a date constraint every row passes; otherwise a row
  passes when it matches the specific date or the range (the README's pseudo-code has this
  shape too). The spec's policy for a lone bound is that it does not constrain and is not
  a half-open range: the range takes part only when both its bounds are set, and a lone
  bound leaves the verdict what it is without that bound.
\<close>

definition applyDateFiltering ::
  "dateParser \<Rightarrow> string \<Rightarrow> jsval \<Rightarrow> jsval \<Rightarrow> jsval \<Rightarrow> bool" where
  "applyDateFiltering parse rowDate selDate startD endD =
     (if \<not> isSet selDate \<and> \<not> (isSet startD \<and> isSet endD) then True
      else matchesSpecificDate parse rowDate selDate
           \<or> matchesDateRange parse rowDate startD endD)"

text \<open>
  Modelled from the spec: \<^verbatim>\<open>applyZoneFiltering\<close> of the missing
  \<^verbatim>\<open>dateFilterLogic.js\<close>. True when the selected zone is unset or blank, otherwise
  exact, case-sensitive equality with the row's zone.
\<close>

definition applyZoneFiltering :: "string \<Rightarrow> jsval \<Rightarrow> bool" where
  "applyZoneFiltering rowZone selZone =
     (if \<not> isSet selZone then True else selZone = JStr rowZone)"

text \<open>
  Modelled from the spec: the bucket a selector names. There are selectors for 0, 1 and 2
  trips and none for 3 and more.
\<close>

definition selectorBucket :: "jsval \<Rightarrow> bucket option" where
  "selectorBucket v =
     (if v = JStr ''0'' then Some Trips0
      else if v = JStr ''1'' then Some Trips1
      else if v = JStr ''2'' then Some Trips2
      else None)"

text \<open>
  Modelled from the spec: \<^verbatim>\<open>applyTripCountFiltering\<close> of the missing
  \<^verbatim>\<open>dateFilterLogic.js\<close>. True when the selector is \<^verbatim>\<open>'all'\<close> or unset;
  otherwise true exactly when the row's trip bucket is the one the selector names.
\<close>

definition applyTripCountFiltering :: "row \<Rightarrow> jsval \<Rightarrow> bool" where
  "applyTripCountFiltering r selector =
     (if \<not> truthy selector \<or> selector = JStr ''all'' then True
      else selectorBucket selector = Some (tripsBucket r))"

text \<open>
  \<^verbatim>\<open>shouldIncludeRow\<close> as the repository documents it (refactoring summary, lines
  83-88). The three filters it calls come from \<^verbatim>\<open>dateFilterLogic.js\<close>, which is not
  among the sources: they are parameters here, so that what is proved of the function
  itself holds for every implementation of them. The third parameter of the source,
  \<^verbatim>\<open>sheetName\<close>, is not used.
\<close>

type_synonym dateFilter = "string \<Rightarrow> jsval \<Rightarrow> jsval \<Rightarrow> jsval \<Rightarrow> bool"
type_synonym zoneFilter = "string \<Rightarrow> jsval \<Rightarrow> bool"
type_synonym tripFilter = "row \<Rightarrow> jsval \<Rightarrow> bool"

definition shouldIncludeRow ::
  "dateFilter \<Rightarrow> zoneFilter \<Rightarrow> tripFilter \<Rightarrow> row \<Rightarrow> filterValues \<Rightarrow> string \<Rightarrow> bool" where
  "shouldIncludeRow applyDate applyZone applyTripCount r filters sheetName =
     (let dateMatch = applyDate (Date r) (selectedDate filters)
                        (startDate filters) (endDate filters);
          zoneMatch = applyZone (Zone r) (selectedZone filters);
          tripCountMatch = applyTripCount r (tripCountFilter filters)
      in dateMatch \<and> zoneMatch \<and> tripCountMatch)"


section \<open>Evaluation and helper facts\<close>

lemmas date_eval = isoDateParse_def digitOf_def daysInMonth_def isLeapYear_def
  daysFromCivil_def msPerDay_def normalizeDate_def dateOfField_def

lemmas text_eval = trim_def isWhiteSpace_def isSet_def nonBlank_def nonBlankEither_def
  andThen_def

lemmas filter_eval = matchesSpecificDate_def matchesDateRange_def applyDateFiltering_def
  applyZoneFiltering_def applyTripCountFiltering_def selectorBucket_def shouldIncludeRow_def

lemma trim_Nil: "trim [] = []"
  by (simp add: trim_def)

text \<open>On a string, \<^verbatim>\<open>x && x.trim() !== ''\<close> is the empty string itself or a boolean.\<close>

lemma nonBlank_JStr:
  "nonBlank (JStr s) = Inr (if s = [] then JStr [] else JBool (trim s \<noteq> []))"
  by (simp add: nonBlank_def andThen_def)

text \<open>
  On strings no validation utility throws, and each result is truthy exactly when the
  documented condition holds. On a non-empty string the three \<^verbatim>\<open>has...\<close> helpers
  return a boolean.
\<close>

lemma validation_total_on_strings:
  "(\<exists>ok. isValidDate parse (JStr s) = Inr ok)
   \<and> (\<exists>v. hasSpecificDateFilter (JStr s) = Inr v \<and> truthy v = (trim s \<noteq> []))
   \<and> (\<exists>v. hasDateRangeFilter (JStr a) (JStr b) = Inr v
          \<and> truthy v = (trim a \<noteq> [] \<or> trim b \<noteq> []))
   \<and> (\<exists>v. hasBothDateFilters (JStr s) (JStr a) (JStr b) = Inr v
          \<and> truthy v = (trim s \<noteq> [] \<and> (trim a \<noteq> [] \<or> trim b \<noteq> [])))"
  by (auto simp: isValidDate_def hasSpecificDateFilter_def hasDateRangeFilter_def
        hasBothDateFilters_def nonBlankEither_def nonBlank_JStr andThen_def trim_Nil)

lemma hasSpecificDateFilter_nonempty:
  "s \<noteq> [] \<Longrightarrow> hasSpecificDateFilter (JStr s) = Inr (JBool (trim s \<noteq> []))"
  by (simp add: hasSpecificDateFilter_def nonBlank_JStr)

text \<open>A value that is truthy and not a string makes \<^verbatim>\<open>.trim()\<close> throw.\<close>

lemma hasSpecificDateFilter_throws:
  "hasSpecificDateFilter (JBool True) = Inl TypeError"
  by (simp add: hasSpecificDateFilter_def nonBlank_def andThen_def)


section \<open>The claims\<close>

text \<open>
  Claim C1. For every row and every filter state, \<^verbatim>\<open>shouldIncludeRow\<close> is the
  conjunction of the date, zone and trip-count filters applied to the row's date, the
  row's zone and the row, whatever the three filters compute. The OR of the specific-date
  match and the range match stands inside the date filter only: with a date constraint in
  force the verdict is (specificMatch OR rangeMatch) AND zoneMatch AND tripMatch, and
  without one it is zoneMatch AND tripMatch.
\<close>

theorem shouldIncludeRow_conj:
  "shouldIncludeRow applyDate applyZone applyTripCount r fv sheet =
     (applyDate (Date r) (selectedDate fv) (startDate fv) (endDate fv)
      \<and> applyZone (Zone r) (selectedZone fv)
      \<and> applyTripCount r (tripCountFilter fv))
   \<and> (isSet (selectedDate fv) \<or> (isSet (startDate fv) \<and> isSet (endDate fv)) \<longrightarrow>
        shouldIncludeRow (applyDateFiltering parse) applyZone applyTripCount r fv sheet =
          ((matchesSpecificDate parse (Date r) (selectedDate fv)
            \<or> matchesDateRange parse (Date r) (startDate fv) (endDate fv))
           \<and> applyZone (Zone r) (selectedZone fv)
           \<and> applyTripCount r (tripCountFilter fv)))
   \<and> (\<not> isSet (selectedDate fv) \<and> \<not> (isSet (startDate fv) \<and> isSet (endDate fv)) \<longrightarrow>
        shouldIncludeRow (applyDateFiltering parse) applyZone applyTripCount r fv sheet =
          (applyZone (Zone r) (selectedZone fv) \<and> applyTripCount r (tripCountFilter fv)))"
  by (auto simp: shouldIncludeRow_def applyDateFiltering_def)

text \<open>
  The filter state of the spec's OR example, with zone North and selector 1. A row of
  2024-01-01 in zone North with two trips matches the specific date and the zone and
  fails the trip count: it is excluded. The same row in zone South with one trip matches
  the specific date and fails the zone: it is excluded too, so the zone is not inside
  the OR.
\<close>

theorem shouldIncludeRow_conj_witness:
  "isSet (JStr ''2024-01-01'')
   \<and> matchesSpecificDate isoDateParse ''2024-01-01'' (JStr ''2024-01-01'')
   \<and> \<not> matchesDateRange isoDateParse ''2024-01-01'' (JStr ''2024-03-01'') (JStr ''2024-03-31'')
   \<and> applyZoneFiltering ''North'' (JStr ''North'')
   \<and> \<not> applyTripCountFiltering
         \<lparr>Date = ''2024-01-01'', Zone = ''North'', tripsBucket = Trips2\<rparr> (JStr ''1'')
   \<and> \<not> shouldIncludeRow (applyDateFiltering isoDateParse) applyZoneFiltering
         applyTripCountFiltering
         \<lparr>Date = ''2024-01-01'', Zone = ''North'', tripsBucket = Trips2\<rparr>
         \<lparr>selectedDate = JStr ''2024-01-01'', startDate = JStr ''2024-03-01'',
          endDate = JStr ''2024-03-31'', selectedZone = JStr ''North'',
          tripCountFilter = JStr ''1'', showTripCountFilter = JBool True\<rparr> ''Sheet1''
   \<and> \<not> shouldIncludeRow (applyDateFiltering isoDateParse) applyZoneFiltering
         applyTripCountFiltering
         \<lparr>Date = ''2024-01-01'', Zone = ''South'', tripsBucket = Trips1\<rparr>
         \<lparr>selectedDate = JStr ''2024-01-01'', startDate = JStr ''2024-03-01'',
          endDate = JStr ''2024-03-31'', selectedZone = JStr ''North'',
          tripCountFilter = JStr ''1'', showTripCountFilter = JBool True\<rparr> ''Sheet1''
   \<and> shouldIncludeRow (applyDateFiltering isoDateParse) applyZoneFiltering
         applyTripCountFiltering
         \<lparr>Date = ''2024-03-15'', Zone = ''North'', tripsBucket = Trips1\<rparr>
         \<lparr>selectedDate = JStr ''2024-01-01'', startDate = JStr ''2024-03-01'',
          endDate = JStr ''2024-03-31'', selectedZone = JStr ''North'',
          tripCountFilter = JStr ''1'', showTripCountFilter = JBool True\<rparr> ''Sheet1''"
  using shouldIncludeRow_conj [where parse = isoDateParse
      and applyDate = "applyDateFiltering isoDateParse" and applyZone = applyZoneFiltering
      and applyTripCount = applyTripCountFiltering
      and r = "\<lparr>Date = ''2024-01-01'', Zone = ''North'', tripsBucket = Trips2\<rparr>"
      and fv = "\<lparr>selectedDate = JStr ''2024-01-01'', startDate = JStr ''2024-03-01'',
          endDate = JStr ''2024-03-31'', selectedZone = JStr ''North'',
          tripCountFilter = JStr ''1'', showTripCountFilter = JBool True\<rparr>"
      and sheet = "''Sheet1''"]
  by (simp add: date_eval text_eval filter_eval)

text \<open>
  Claim C3. For every pair of strings, \<^verbatim>\<open>validateDateRange\<close> is true when the start
  or the end is empty; when both are non-empty it is false if either fails to parse, and
  otherwise true exactly when the parsed start is on or before the parsed end. The
  comparison is between the parsed dates, never between the strings.
\<close>

theorem validateDateRange_spec:
  "validateDateRange parse (JStr s) (JStr e) =
     (s = [] \<or> e = [] \<or> (\<exists>a b. parse s = Some a \<and> parse e = Some b \<and> a \<le> b))"
  by (auto simp: validateDateRange_def split: option.splits)

text \<open>The three examples of the spec, and a range of one day.\<close>

theorem validateDateRange_spec_witness:
  "validateDateRange isoDateParse (JStr []) (JStr ''2024-01-01'')
   \<and> \<not> validateDateRange isoDateParse (JStr ''2024-05-01'') (JStr ''2024-01-01'')
   \<and> \<not> validateDateRange isoDateParse (JStr ''not-a-date'') (JStr ''2024-01-01'')
   \<and> validateDateRange isoDateParse (JStr ''2024-01-01'') (JStr ''2024-01-01'')
   \<and> validateDateRange isoDateParse (JStr ''2023-12-31'') (JStr ''2024-01-01'')"
  unfolding validateDateRange_spec
  by (simp add: date_eval)

text \<open>
  Claim C4. \<^verbatim>\<open>applyDateFiltering\<close> is true when neither the specific date nor any
  bound is set. Otherwise it is specificMatch OR rangeMatch, where specificMatch holds
  when the specific date is set and the row's date equals it, and rangeMatch, with both
  bounds set, holds exactly when start \<open>\<le>\<close> row date \<open>\<le>\<close> end, both ends included. The
  claim leaves rangeMatch open for a lone bound: without a specific date the lone bound
  constrains nothing and the verdict is true.
\<close>

theorem applyDateFiltering_cases:
  "(\<not> isSet s \<and> \<not> isSet a \<and> \<not> isSet b \<longrightarrow> applyDateFiltering parse d s a b)
   \<and> (isSet s \<or> (isSet a \<and> isSet b) \<longrightarrow>
        applyDateFiltering parse d s a b
          = (matchesSpecificDate parse d s \<or> matchesDateRange parse d a b))
   \<and> (\<not> isSet s \<and> isSet a \<noteq> isSet b \<longrightarrow> applyDateFiltering parse d s a b)
   \<and> matchesSpecificDate parse d s
        = (isSet s \<and> (\<exists>x. normalizeDate parse d = Some x \<and> dateOfField parse s = Some x))
   \<and> (isSet a \<and> isSet b \<longrightarrow>
        matchesDateRange parse d a b
          = (\<exists>x lo hi. normalizeDate parse d = Some x \<and> dateOfField parse a = Some lo
                \<and> dateOfField parse b = Some hi \<and> lo \<le> x \<and> x \<le> hi))"
  by (auto simp: applyDateFiltering_def matchesSpecificDate_def matchesDateRange_def
           split: option.splits)

text \<open>
  The OR example of the spec (specific date 2024-01-01, range 2024-03-01 to 2024-03-31),
  the two ends of the range and the days just outside them, the specific date matching
  itself, and no date constraint at all.
\<close>

theorem applyDateFiltering_cases_witness:
  "isSet (JStr ''2024-01-01'') \<and> isSet (JStr ''2024-03-01'') \<and> isSet (JStr ''2024-03-31'')
   \<and> \<not> isSet (JStr [])
   \<and> applyDateFiltering isoDateParse ''2024-01-01''
       (JStr ''2024-01-01'') (JStr ''2024-03-01'') (JStr ''2024-03-31'')
   \<and> applyDateFiltering isoDateParse ''2024-03-15''
       (JStr ''2024-01-01'') (JStr ''2024-03-01'') (JStr ''2024-03-31'')
   \<and> \<not> applyDateFiltering isoDateParse ''2024-02-01''
       (JStr ''2024-01-01'') (JStr ''2024-03-01'') (JStr ''2024-03-31'')
   \<and> applyDateFiltering isoDateParse ''2024-03-01''
       (JStr []) (JStr ''2024-03-01'') (JStr ''2024-03-31'')
   \<and> applyDateFiltering isoDateParse ''2024-03-31''
       (JStr []) (JStr ''2024-03-01'') (JStr ''2024-03-31'')
   \<and> \<not> applyDateFiltering isoDateParse ''2024-02-29''
       (JStr []) (JStr ''2024-03-01'') (JStr ''2024-03-31'')
   \<and> \<not> applyDateFiltering isoDateParse ''2024-04-01''
       (JStr []) (JStr ''2024-03-01'') (JStr ''2024-03-31'')
   \<and> applyDateFiltering isoDateParse ''2024-01-01'' (JStr ''2024-01-01'') (JStr []) (JStr [])
   \<and> \<not> applyDateFiltering isoDateParse ''2024-01-02'' (JStr ''2024-01-01'') (JStr []) (JStr [])
   \<and> applyDateFiltering isoDateParse ''2024-02-01'' (JStr []) (JStr []) (JStr [])"
  using applyDateFiltering_cases [where parse = isoDateParse and d = "''2024-02-01''"
      and s = "JStr ''2024-01-01''" and a = "JStr ''2024-03-01''" and b = "JStr ''2024-03-31''"]
  by (simp add: date_eval text_eval filter_eval)

text \<open>
  Claim C5. When exactly one of the two bounds is set, the lone bound imposes no
  constraint: \<^verbatim>\<open>applyDateFiltering\<close> returns the verdict it returns with that bound
  unset, whatever the row's date and the specific date are. In particular, with no
  specific date set and one bound set, it returns true for every row date.
\<close>

theorem lone_bound_no_constraint:
  "(isSet a \<and> \<not> isSet b \<and> \<not> isSet u \<longrightarrow>
      applyDateFiltering parse d s a b = applyDateFiltering parse d s u b)
   \<and> (\<not> isSet a \<and> isSet b \<and> \<not> isSet u \<longrightarrow>
      applyDateFiltering parse d s a b = applyDateFiltering parse d s a u)
   \<and> (isSet a \<noteq> isSet b \<and> \<not> isSet s \<longrightarrow> applyDateFiltering parse d s a b)"
  by (auto simp: applyDateFiltering_def matchesDateRange_def)

text \<open>
  A lone start bound of 2024-03-01: a row of 2024-02-01, before the bound, passes without
  a specific date; with the specific date 2024-01-01 it is excluded and a row of
  2024-01-01 passes, as with no bound at all.
\<close>

theorem lone_bound_no_constraint_witness:
  "isSet (JStr ''2024-03-01'') \<and> \<not> isSet (JStr []) \<and> \<not> isSet JUndefined
   \<and> applyDateFiltering isoDateParse ''2024-02-01'' (JStr []) (JStr ''2024-03-01'') (JStr [])
   \<and> applyDateFiltering isoDateParse ''2024-02-01'' (JStr ''2024-01-01'')
        (JStr ''2024-03-01'') (JStr [])
      = applyDateFiltering isoDateParse ''2024-02-01'' (JStr ''2024-01-01'') JUndefined (JStr [])
   \<and> \<not> applyDateFiltering isoDateParse ''2024-02-01'' (JStr ''2024-01-01'')
        (JStr ''2024-03-01'') (JStr [])
   \<and> applyDateFiltering isoDateParse ''2024-01-01'' (JStr ''2024-01-01'')
        (JStr ''2024-03-01'') (JStr [])
   \<and> applyDateFiltering isoDateParse ''2024-03-05'' (JStr []) (JStr []) (JStr ''2024-03-01'')"
  using lone_bound_no_constraint [where parse = isoDateParse and d = "''2024-02-01''"
      and s = "JStr ''2024-01-01''" and a = "JStr ''2024-03-01''" and b = "JStr []"
      and u = JUndefined]
  by (simp add: date_eval text_eval filter_eval)

text \<open>
  Claim C6. For every filter state with text fields, \<^verbatim>\<open>hasAnyActiveFilters\<close> is true
  exactly when the specific date is non-blank, or the range start or the range end is
  non-blank, or the zone is non-blank, or the trip-count category is enabled and the
  selector is set and differs from \<^verbatim>\<open>'all'\<close>. With the category disabled the selector
  is ignored, whatever it holds.
\<close>

theorem hasAnyActiveFilters_iff:
  "hasAnyActiveFilters \<lparr> selectedDate = JStr sd, startDate = JStr a, endDate = JStr b,
       selectedZone = JStr z, tripCountFilter = tc, showTripCountFilter = sh \<rparr>
   = Inr (trim sd \<noteq> [] \<or> trim a \<noteq> [] \<or> trim b \<noteq> [] \<or> trim z \<noteq> []
          \<or> (truthy sh \<and> truthy tc \<and> tc \<noteq> JStr ''all''))"
  by (cases sh)
    (auto simp: hasAnyActiveFilters_def nonBlankEither_def nonBlank_JStr andThen_def trim_Nil)

text \<open>
  A lone end bound is active; blank text is not; the selector 2 is active with the
  category enabled and ignored with it disabled or left out; \<^verbatim>\<open>'all'\<close> is never active.
\<close>

theorem hasAnyActiveFilters_iff_witness:
  "hasAnyActiveFilters \<lparr> selectedDate = JStr [], startDate = JStr [],
       endDate = JStr ''2024-03-31'', selectedZone = JStr [], tripCountFilter = JStr ''all'',
       showTripCountFilter = JBool False \<rparr> = Inr True
   \<and> hasAnyActiveFilters \<lparr> selectedDate = JStr ''  '', startDate = JStr '' '',
       endDate = JStr [], selectedZone = JStr '' '', tripCountFilter = JStr ''all'',
       showTripCountFilter = JBool True \<rparr> = Inr False
   \<and> hasAnyActiveFilters \<lparr> selectedDate = JStr [], startDate = JStr [],
       endDate = JStr [], selectedZone = JStr [], tripCountFilter = JStr ''2'',
       showTripCountFilter = JBool True \<rparr> = Inr True
   \<and> hasAnyActiveFilters \<lparr> selectedDate = JStr [], startDate = JStr [],
       endDate = JStr [], selectedZone = JStr [], tripCountFilter = JStr ''2'',
       showTripCountFilter = JBool False \<rparr> = Inr False
   \<and> hasAnyActiveFilters \<lparr> selectedDate = JStr [], startDate = JStr [],
       endDate = JStr [], selectedZone = JStr [], tripCountFilter = JStr ''2'',
       showTripCountFilter = JUndefined \<rparr> = Inr False
   \<and> hasAnyActiveFilters \<lparr> selectedDate = JStr [], startDate = JStr [],
       endDate = JStr [], selectedZone = JStr ''North'', tripCountFilter = JUndefined,
       showTripCountFilter = JBool False \<rparr> = Inr True"
  unfolding hasAnyActiveFilters_iff
  by (simp add: trim_def isWhiteSpace_def)

text \<open>
  Claim C7. \<^verbatim>\<open>applyTripCountFiltering\<close> is true when the selector is \<^verbatim>\<open>'all'\<close> or
  unset; otherwise it is true exactly when the row's trip bucket is the one the selector
  names, 0, 1 or 2. A row with three or more trips is included under \<^verbatim>\<open>'all'\<close> or an
  unset selector only. Every option of \<^verbatim>\<open>TRIP_COUNT_OPTIONS\<close> other than \<^verbatim>\<open>'all'\<close>
  names one of the three buckets.
\<close>

theorem applyTripCountFiltering_spec:
  "applyTripCountFiltering r sel =
     (\<not> truthy sel \<or> sel = JStr ''all''
      \<or> (sel = JStr ''0'' \<and> tripsBucket r = Trips0)
      \<or> (sel = JStr ''1'' \<and> tripsBucket r = Trips1)
      \<or> (sel = JStr ''2'' \<and> tripsBucket r = Trips2))
   \<and> (tripsBucket r = Trips3Plus \<longrightarrow>
        applyTripCountFiltering r sel = (\<not> truthy sel \<or> sel = JStr ''all''))
   \<and> (\<forall>v \<in> set (map fst TRIP_COUNT_OPTIONS).
        v = ''all'' \<or> selectorBucket (JStr v) \<in> {Some Trips0, Some Trips1, Some Trips2})"
  by (auto simp: applyTripCountFiltering_def selectorBucket_def TRIP_COUNT_OPTIONS_def)

text \<open>The selector 1 includes a row with one trip and excludes rows with 0, 2 and 3 or
  more trips; \<^verbatim>\<open>'all'\<close> and an unset selector include a row with 3 or more.\<close>

theorem applyTripCountFiltering_spec_witness:
  "applyTripCountFiltering \<lparr>Date = ''2024-01-01'', Zone = ''North'', tripsBucket = Trips1\<rparr>
       (JStr ''1'')
   \<and> \<not> applyTripCountFiltering \<lparr>Date = ''2024-01-01'', Zone = ''North'', tripsBucket = Trips0\<rparr>
       (JStr ''1'')
   \<and> \<not> applyTripCountFiltering \<lparr>Date = ''2024-01-01'', Zone = ''North'', tripsBucket = Trips2\<rparr>
       (JStr ''1'')
   \<and> \<not> applyTripCountFiltering
       \<lparr>Date = ''2024-01-01'', Zone = ''North'', tripsBucket = Trips3Plus\<rparr> (JStr ''1'')
   \<and> applyTripCountFiltering
       \<lparr>Date = ''2024-01-01'', Zone = ''North'', tripsBucket = Trips3Plus\<rparr> (JStr ''all'')
   \<and> applyTripCountFiltering
       \<lparr>Date = ''2024-01-01'', Zone = ''North'', tripsBucket = Trips3Plus\<rparr> JUndefined"
  using applyTripCountFiltering_spec
    [where r = "\<lparr>Date = ''2024-01-01'', Zone = ''North'', tripsBucket = Trips3Plus\<rparr>"
       and sel = "JStr ''1''"]
  by (simp add: applyTripCountFiltering_def selectorBucket_def)

text \<open>
  Claim C8 says that on strings every validation utility returns a boolean and never
  throws. None throws on strings (\<open>validation_total_on_strings\<close>), and
  \<^verbatim>\<open>isValidDate\<close>, \<^verbatim>\<open>validateDateRange\<close> and \<^verbatim>\<open>hasAnyActiveFilters\<close> return
  booleans. On the empty string the three helpers \<^verbatim>\<open>hasSpecificDateFilter\<close>,
  \<^verbatim>\<open>hasDateRangeFilter\<close> and \<^verbatim>\<open>hasBothDateFilters\<close> return the empty string, the
  left operand of their \<^verbatim>\<open>&&\<close>, where their documentation promises a boolean.
\<close>

theorem blank_filter_helpers_return_string:
  "hasSpecificDateFilter (JStr []) = Inr (JStr [])
   \<and> hasDateRangeFilter (JStr []) (JStr []) = Inr (JStr [])
   \<and> hasBothDateFilters (JStr []) (JStr ''2024-03-01'') (JStr ''2024-03-31'') = Inr (JStr [])
   \<and> hasSpecificDateFilter (JStr []) \<noteq> Inr (JBool False)"
  by (simp add: hasSpecificDateFilter_def hasDateRangeFilter_def hasBothDateFilters_def
        nonBlankEither_def nonBlank_def andThen_def)

text \<open>
  Claim C9. For every boolean value of \<^verbatim>\<open>showTripCountFilter\<close>,
  \<^verbatim>\<open>hasAnyActiveFilters\<close> of the object that \<^verbatim>\<open>getClearedFilterValues\<close> returns is
  false; so it is with the flag left out, as the object comes.
\<close>

theorem cleared_filters_inactive:
  "hasAnyActiveFilters (getClearedFilterValues\<lparr>showTripCountFilter := JBool flag\<rparr>)
     = Inr False
   \<and> hasAnyActiveFilters getClearedFilterValues = Inr False"
  by (simp add: hasAnyActiveFilters_def getClearedFilterValues_def nonBlankEither_def
        nonBlank_def andThen_def)

theorem cleared_filters_inactive_witness:
  "hasAnyActiveFilters (getClearedFilterValues\<lparr>showTripCountFilter := JBool True\<rparr>)
     = Inr False
   \<and> hasAnyActiveFilters (getClearedFilterValues\<lparr>showTripCountFilter := JBool False\<rparr>)
     = Inr False"
  using cleared_filters_inactive [of True] cleared_filters_inactive [of False]
  by simp

text \<open>
  Claim C10. For every pair of strings, \<^verbatim>\<open>getDateRangeErrorMessage\<close> returns
  \<^verbatim>\<open>null\<close> exactly when \<^verbatim>\<open>validateDateRange\<close> returns true; when
  \<^verbatim>\<open>validateDateRange\<close> returns false it returns an error message.
\<close>

theorem getDateRangeErrorMessage_null_iff:
  "(getDateRangeErrorMessage parse (JStr s) (JStr e) = Inr None)
     = validateDateRange parse (JStr s) (JStr e)
   \<and> (\<exists>m. getDateRangeErrorMessage parse (JStr s) (JStr e)
           = Inr (if validateDateRange parse (JStr s) (JStr e) then None else Some m))"
  by (auto simp: getDateRangeErrorMessage_def isValidDate_def validateDateRange_def andThen_def
           split: option.splits)

text \<open>
  A backwards range, a start that does not parse, a blank start (which
  \<^verbatim>\<open>isValidDate\<close> accepts and \<^verbatim>\<open>validateDateRange\<close> rejects), a valid range and a
  partial one.
\<close>

theorem getDateRangeErrorMessage_null_iff_witness:
  "\<not> validateDateRange isoDateParse (JStr ''2024-05-01'') (JStr ''2024-01-01'')
   \<and> getDateRangeErrorMessage isoDateParse (JStr ''2024-05-01'') (JStr ''2024-01-01'')
       = Inr (Some ''Start date must be before or equal to end date'')
   \<and> getDateRangeErrorMessage isoDateParse (JStr ''not-a-date'') (JStr ''2024-01-01'')
       = Inr (Some ''Start date is invalid'')
   \<and> getDateRangeErrorMessage isoDateParse (JStr '' '') (JStr ''2024-01-01'')
       = Inr (Some ''Start date must be before or equal to end date'')
   \<and> getDateRangeErrorMessage isoDateParse (JStr ''2024-01-01'') (JStr ''2024-05-01'')
       = Inr None
   \<and> getDateRangeErrorMessage isoDateParse (JStr []) (JStr ''2024-05-01'') = Inr None"
  using getDateRangeErrorMessage_null_iff [where parse = isoDateParse
      and s = "''2024-05-01''" and e = "''2024-01-01''"]
  by (simp add: getDateRangeErrorMessage_def isValidDate_def validateDateRange_def andThen_def
        trim_def isWhiteSpace_def date_eval)

end
